theory Spec2Isabelle
  imports Main
begin

section \<open>Order placement and inventory of the e-commerce backend\<close>

text \<open>
  The development embeds the order and inventory code paths of the FastAPI application:
  the data-access functions of \<^verbatim>\<open>app/crud.py\<close>, the request schemas of
  \<^verbatim>\<open>app/schemas.py\<close> and the handlers of \<^verbatim>\<open>app/routers/orders.py\<close> and
  \<^verbatim>\<open>app/routers/inventory.py\<close>, over the tables of \<^verbatim>\<open>app/models.py\<close>.

  Conventions.
  \<^item> A SQLAlchemy session is the record \<open>db\<close> of the tables it reads and writes; a
    function that commits returns the new \<open>db\<close>. \<open>query(...).filter(...).first()\<close>
    is \<open>find\<close> on the table; \<open>db.add\<close> followed by \<open>db.commit\<close> appends a row
    when the engine accepts it.
  \<^item> Python integers are \<open>int\<close>. A \<open>Decimal\<close> amount with two places
    (\<open>Numeric(10, 2)\<close>) is the \<open>int\<close> number of hundredths it denotes, so
    \<open>Decimal("10.00")\<close> is \<open>1000\<close>; decimal addition and multiplication by an
    integer are then integer addition and multiplication.
  \<^item> An exception is a value of type \<open>error\<close>; a function that can raise returns
    \<open>(error + result) \<times> db\<close>, the second component being the committed state.
  \<^item> \<open>datetime.now()\<close> is a parameter \<open>now\<close>, and the primary key the engine's
    sequence issues for a new row is a parameter \<open>new_id\<close>.
  \<^item> The storage engine is the PostgreSQL that \<^verbatim>\<open>app/database.py\<close> configures. A
    commit is checked against what \<^verbatim>\<open>app/models.py\<close> declares for the columns it
    writes: an \<open>Integer\<close> column holds 32-bit signed values and \<open>Numeric(10, 2)\<close>
    at most ten digits, beyond which the commit raises \<open>DataError\<close>; a primary key or
    unique column that repeats a value, a \<open>ForeignKey\<close> that names no row and
    \<open>NULL\<close> in a \<open>nullable=False\<close> column raise \<open>IntegrityError\<close>. A statement
    is checked for the range of its values before it is checked against the rows of the
    tables. A commit that raises stores nothing.
\<close>

subsection \<open>Tables (app/models.py)\<close>

record product =
  prod_id :: int
  prod_sku :: string
  prod_name :: string
  prod_price :: int

record inventory =
  inv_id :: int
  inv_product_id :: int
  quantity_in_stock :: int
  reorder_level :: int
  last_restocked_at :: "nat option"

record shopping_cart =
  cart_id :: int
  cart_user_id :: int

record shopping_cart_item =
  item_id :: int
  item_cart_id :: int
  item_product_id :: int
  item_quantity :: int

record order =
  order_id :: int
  order_user_id :: int
  order_cart_id :: int
  order_address :: string
  order_status :: string
  total_amount :: int

text \<open>
  The tables; \<open>users\<close> holds the ids of the rows of the users table, which is all the
  order code reads of them.
\<close>

record db =
  users :: "int list"
  products :: "product list"
  inventory_rows :: "inventory list"
  shopping_carts :: "shopping_cart list"
  shopping_cart_items :: "shopping_cart_item list"
  orders :: "order list"

text \<open>The values of an \<open>Integer\<close> column and of a \<open>Numeric(10, 2)\<close> column in hundredths.\<close>

definition int4 :: "int \<Rightarrow> bool" where
  "int4 v = (- 2147483648 \<le> v \<and> v \<le> 2147483647)"

definition numeric_10_2 :: "int \<Rightarrow> bool" where
  "numeric_10_2 v = (- 9999999999 \<le> v \<and> v \<le> 9999999999)"

subsection \<open>Errors\<close>

text \<open>
  \<open>NotFound\<close> is \<open>HTTPException(404)\<close>, \<open>Forbidden\<close> is \<open>HTTPException(403)\<close>;
  \<open>EmptyCart\<close>, \<open>InsufficientStock name available\<close>, \<open>InvalidStatus\<close>,
  \<open>CannotDelete\<close> and \<open>InventoryExists\<close> are the \<open>HTTPException(400)\<close> of the
  handlers, told apart by their detail text; \<open>ValidationError\<close> is the rejection of a
  request body by its pydantic schema. \<open>AttributeError\<close>, \<open>TypeError\<close>,
  \<open>IntegrityError\<close> and \<open>DataError\<close> are the Python and SQLAlchemy exceptions of
  those names.
\<close>

datatype error =
    NotFound
  | Forbidden
  | EmptyCart
  | InsufficientStock string int
  | InvalidStatus
  | CannotDelete
  | InventoryExists
  | ValidationError
  | AttributeError
  | TypeError
  | IntegrityError
  | DataError

subsection \<open>Request schemas (app/schemas.py)\<close>

text \<open>
  An optional field of an update schema is \<open>Unset\<close> when the request leaves it out,
  \<open>Null\<close> when the request gives \<open>null\<close>, and \<open>Given v\<close> otherwise;
  \<open>dict(exclude_unset=True)\<close> keeps the last two.
\<close>

datatype 'a field = Unset | Null | Given 'a

record order_create =
  oc_cart_id :: int
  oc_address :: string

record order_update =
  ou_address :: "string field"
  ou_order_status :: "string field"

subsection \<open>Lookups (app/crud.py)\<close>

definition get_product :: "db \<Rightarrow> int \<Rightarrow> product option" where
  "get_product d pid = find (\<lambda>p. prod_id p = pid) (products d)"

definition get_shopping_cart :: "db \<Rightarrow> int \<Rightarrow> shopping_cart option" where
  "get_shopping_cart d cid = find (\<lambda>c. cart_id c = cid) (shopping_carts d)"

definition get_order :: "db \<Rightarrow> int \<Rightarrow> order option" where
  "get_order d oid = find (\<lambda>ord. order_id ord = oid) (orders d)"

definition get_inventory :: "db \<Rightarrow> int \<Rightarrow> inventory option" where
  "get_inventory d iid = find (\<lambda>i. inv_id i = iid) (inventory_rows d)"

definition get_inventory_by_product :: "db \<Rightarrow> int \<Rightarrow> inventory option" where
  "get_inventory_by_product d pid = find (\<lambda>i. inv_product_id i = pid) (inventory_rows d)"

text \<open>The relationship \<open>cart.items\<close>: the item rows whose \<open>cart_id\<close> is the cart's id.\<close>

definition items :: "db \<Rightarrow> shopping_cart \<Rightarrow> shopping_cart_item list" where
  "items d cart = filter (\<lambda>i. item_cart_id i = cart_id cart) (shopping_cart_items d)"

subsection \<open>Order creation in the data layer (crud.create_order)\<close>

text \<open>
  The loop \<open>for item in cart.items\<close> that accumulates \<open>total_amount\<close>: an item whose
  product is missing adds nothing.
\<close>

fun add_totals :: "db \<Rightarrow> shopping_cart_item list \<Rightarrow> int \<Rightarrow> int" where
  "add_totals d [] amount = amount"
| "add_totals d (item # rest) amount =
     (case get_product d (item_product_id item) of
        None \<Rightarrow> add_totals d rest amount
      | Some p \<Rightarrow> add_totals d rest (amount + prod_price p * item_quantity item))"

text \<open>
  The commit of a new row of \<open>orders\<close>: \<open>id\<close>, \<open>user_id\<close> and \<open>cart_id\<close> are
  \<open>Integer\<close>, \<open>total_amount\<close> is \<open>Numeric(10, 2)\<close>; \<open>id\<close> is the primary key,
  \<open>user_id\<close> a foreign key to \<open>users.id\<close> and \<open>cart_id\<close> one to
  \<open>shopping_carts.id\<close>.
\<close>

definition insert_order :: "db \<Rightarrow> order \<Rightarrow> error + db" where
  "insert_order d row =
     (if \<not> (int4 (order_id row) \<and> int4 (order_user_id row) \<and> int4 (order_cart_id row) \<and>
             numeric_10_2 (total_amount row))
      then Inl DataError
      else if order_id row \<in> set (map order_id (orders d)) \<or>
              order_user_id row \<notin> set (users d) \<or>
              order_cart_id row \<notin> set (map cart_id (shopping_carts d))
      then Inl IntegrityError
      else Inr (d\<lparr>orders := orders d @ [row]\<rparr>))"

definition crud_create_order ::
    "db \<Rightarrow> int \<Rightarrow> int \<Rightarrow> order_create \<Rightarrow> (error + order) \<times> db" where
  "crud_create_order d new_id user_id ordr =
     (let amount =
            (case get_shopping_cart d (oc_cart_id ordr) of
               None \<Rightarrow> 0
             | Some cart \<Rightarrow>
                 if items d cart \<noteq> [] then add_totals d (items d cart) 0 else 0);
          db_order = \<lparr> order_id = new_id,
                       order_user_id = user_id,
                       order_cart_id = oc_cart_id ordr,
                       order_address = oc_address ordr,
                       order_status = ''pending'',
                       total_amount = amount \<rparr>
      in (case insert_order d db_order of
            Inl e \<Rightarrow> (Inl e, d)
          | Inr d' \<Rightarrow> (Inr db_order, d')))"

subsection \<open>Order creation in the handler (routers/orders.py create_order)\<close>

text \<open>
  \<open>models.Product\<close> maps the columns id, sku, name, description, price, created_at and
  updated_at; the class comment records that the \<open>quantity\<close> column was removed in
  favour of the inventory table. Reading \<open>product.quantity\<close> on an instance therefore
  raises \<open>AttributeError\<close>, whatever the row holds.
\<close>

definition product_quantity :: "product \<Rightarrow> error + int" where
  "product_quantity p = Inl AttributeError"

text \<open>The loop "check stock availability for all items".\<close>

fun check_stock :: "db \<Rightarrow> shopping_cart_item list \<Rightarrow> error + unit" where
  "check_stock d [] = Inr ()"
| "check_stock d (item # rest) =
     (case get_product d (item_product_id item) of
        None \<Rightarrow> Inl NotFound
      | Some p \<Rightarrow>
          (case product_quantity p of
             Inl e \<Rightarrow> Inl e
           | Inr q \<Rightarrow>
               if q < item_quantity item then Inl (InsufficientStock (prod_name p) q)
               else check_stock d rest))"

text \<open>
  A call that passes every argument by keyword binds only when the keywords are the
  parameter names of the callee (none of which has a default here); otherwise Python
  raises \<open>TypeError\<close> before the body runs. \<open>crud.create_order\<close> is declared with the
  parameters \<open>db\<close>, \<open>user_id\<close> and \<open>order\<close>.
\<close>

definition crud_create_order_params :: "string list" where
  "crud_create_order_params = [''db'', ''user_id'', ''order'']"

definition call_crud_create_order ::
    "string list \<Rightarrow> db \<Rightarrow> int \<Rightarrow> int \<Rightarrow> order_create \<Rightarrow> (error + order) \<times> db" where
  "call_crud_create_order keywords d new_id uid ordr =
     (if list_all (\<lambda>k. k \<in> set crud_create_order_params) keywords \<and>
         list_all (\<lambda>p. p \<in> set keywords) crud_create_order_params
      then crud_create_order d new_id uid ordr
      else (Inl TypeError, d))"

text \<open>
  The loop "update product quantities". \<open>product.quantity -= item.quantity\<close> reads the
  attribute first, which raises; were the read to return, the assignment would set an
  attribute that is no mapped column, and the commit would write no row.
\<close>

fun update_quantities :: "db \<Rightarrow> shopping_cart_item list \<Rightarrow> error + unit" where
  "update_quantities d [] = Inr ()"
| "update_quantities d (item # rest) =
     (case get_product d (item_product_id item) of
        None \<Rightarrow> update_quantities d rest
      | Some p \<Rightarrow>
          (case product_quantity p of
             Inl e \<Rightarrow> Inl e
           | Inr q \<Rightarrow> update_quantities d rest))"

definition orders_create_order ::
    "db \<Rightarrow> int \<Rightarrow> int \<Rightarrow> order_create \<Rightarrow> (error + order) \<times> db" where
  "orders_create_order d new_id current_user_id ordr =
     (case get_shopping_cart d (oc_cart_id ordr) of
        None \<Rightarrow> (Inl NotFound, d)
      | Some cart \<Rightarrow>
          if cart_user_id cart \<noteq> current_user_id then (Inl Forbidden, d)
          else if items d cart = [] then (Inl EmptyCart, d)
          else
            (case check_stock d (items d cart) of
               Inl e \<Rightarrow> (Inl e, d)
             | Inr u \<Rightarrow>
                 (case call_crud_create_order [''db'', ''customer_id'', ''order'']
                         d new_id current_user_id ordr of
                    (Inl e, d') \<Rightarrow> (Inl e, d')
                  | (Inr db_order, d') \<Rightarrow>
                      (case update_quantities d' (items d' cart) of
                         Inl e \<Rightarrow> (Inl e, d')
                       | Inr u' \<Rightarrow> (Inr db_order, d')))))"

subsection \<open>Order update and deletion\<close>

text \<open>Rows are rewritten and deleted through the instance \<open>first()\<close> returned.\<close>

fun update_first :: "('a \<Rightarrow> bool) \<Rightarrow> ('a \<Rightarrow> 'a) \<Rightarrow> 'a list \<Rightarrow> 'a list" where
  "update_first P f [] = []"
| "update_first P f (x # xs) = (if P x then f x # xs else x # update_first P f xs)"

fun delete_first :: "('a \<Rightarrow> bool) \<Rightarrow> 'a list \<Rightarrow> 'a list" where
  "delete_first P [] = []"
| "delete_first P (x # xs) = (if P x then xs else x # delete_first P xs)"

text \<open>\<open>setattr\<close> of one entry of \<open>dict(exclude_unset=True)\<close> on a column value.\<close>

fun setattr :: "'a field \<Rightarrow> 'a \<Rightarrow> 'a" where
  "setattr (Given v) column = v"
| "setattr Unset column = column"
| "setattr Null column = column"

definition crud_update_order ::
    "db \<Rightarrow> int \<Rightarrow> order_update \<Rightarrow> (error + order option) \<times> db" where
  "crud_update_order d oid order_upd =
     (case get_order d oid of
        None \<Rightarrow> (Inr None, d)
      | Some db_order \<Rightarrow>
          if ou_address order_upd = Null \<or> ou_order_status order_upd = Null
          then (Inl IntegrityError, d)
          else
            (let updated = db_order
                   \<lparr> order_address := setattr (ou_address order_upd) (order_address db_order),
                     order_status := setattr (ou_order_status order_upd) (order_status db_order) \<rparr>
             in (Inr (Some updated),
                 d\<lparr>orders := update_first (\<lambda>r. order_id r = oid) (\<lambda>r. updated) (orders d)\<rparr>)))"

definition crud_delete_order :: "db \<Rightarrow> int \<Rightarrow> order option \<times> db" where
  "crud_delete_order d oid =
     (case get_order d oid of
        None \<Rightarrow> (None, d)
      | Some db_order \<Rightarrow>
          (Some db_order, d\<lparr>orders := delete_first (\<lambda>r. order_id r = oid) (orders d)\<rparr>))"

definition valid_statuses :: "string list" where
  "valid_statuses = [''pending'', ''confirmed'', ''shipped'', ''delivered'', ''cancelled'']"

text \<open>
  The test \<open>order_update.order_status and order_update.order_status not in valid_statuses\<close>:
  the attribute is \<open>None\<close> when the field is unset or null, and \<open>None\<close> and the empty
  string are false in a Python condition.
\<close>

fun status_rejected :: "string field \<Rightarrow> bool" where
  "status_rejected (Given s) = (s \<noteq> [] \<and> s \<notin> set valid_statuses)"
| "status_rejected Unset = False"
| "status_rejected Null = False"

definition orders_update_order ::
    "db \<Rightarrow> int \<Rightarrow> int \<Rightarrow> order_update \<Rightarrow> (error + order option) \<times> db" where
  "orders_update_order d current_user_id oid order_upd =
     (case get_order d oid of
        None \<Rightarrow> (Inl NotFound, d)
      | Some ordr \<Rightarrow>
          if order_user_id ordr \<noteq> current_user_id then (Inl Forbidden, d)
          else if status_rejected (ou_order_status order_upd) then (Inl InvalidStatus, d)
          else
            crud_update_order d oid order_upd)"

definition orders_delete_order :: "db \<Rightarrow> int \<Rightarrow> int \<Rightarrow> (error + order option) \<times> db" where
  "orders_delete_order d current_user_id oid =
     (case get_order d oid of
        None \<Rightarrow> (Inl NotFound, d)
      | Some ordr \<Rightarrow>
          if order_user_id ordr \<noteq> current_user_id then (Inl Forbidden, d)
          else if order_status ordr \<in> set [''shipped'', ''delivered'']
          then (Inl CannotDelete, d)
          else (case crud_delete_order d oid of (deleted_order, d') \<Rightarrow> (Inr deleted_order, d')))"

subsection \<open>Inventory\<close>

text \<open>
  The request bodies of the inventory handlers and the constraints their schemas declare
  (\<open>ge=0\<close>, \<open>gt=0\<close>). FastAPI validates a body against its schema before the handler
  runs and answers a body that fails with a validation error; an optional field that is
  unset or null passes.
\<close>

record inventory_create =
  ic_product_id :: int
  ic_quantity_in_stock :: int
  ic_reorder_level :: int

record inventory_update =
  iu_quantity_in_stock :: "int field"
  iu_reorder_level :: "int field"

record inventory_restock =
  ir_quantity_to_add :: int

definition valid_inventory_create :: "inventory_create \<Rightarrow> bool" where
  "valid_inventory_create body = (0 \<le> ic_quantity_in_stock body \<and> 0 \<le> ic_reorder_level body)"

fun field_ge :: "int \<Rightarrow> int field \<Rightarrow> bool" where
  "field_ge bound (Given v) = (bound \<le> v)"
| "field_ge bound Unset = True"
| "field_ge bound Null = True"

definition valid_inventory_update :: "inventory_update \<Rightarrow> bool" where
  "valid_inventory_update body =
     (field_ge 0 (iu_quantity_in_stock body) \<and> field_ge 0 (iu_reorder_level body))"

definition valid_inventory_restock :: "inventory_restock \<Rightarrow> bool" where
  "valid_inventory_restock body = (0 < ir_quantity_to_add body)"

text \<open>
  The commit of a new row of \<open>inventory\<close>: \<open>id\<close>, \<open>product_id\<close>,
  \<open>quantity_in_stock\<close> and \<open>reorder_level\<close> are \<open>Integer\<close>; \<open>id\<close> is the primary
  key, \<open>product_id\<close> is unique and a foreign key to \<open>products.id\<close>.
\<close>

definition insert_inventory :: "db \<Rightarrow> inventory \<Rightarrow> error + db" where
  "insert_inventory d row =
     (if \<not> (int4 (inv_id row) \<and> int4 (inv_product_id row) \<and> int4 (quantity_in_stock row) \<and>
             int4 (reorder_level row))
      then Inl DataError
      else if inv_id row \<in> set (map inv_id (inventory_rows d)) \<or>
              inv_product_id row \<in> set (map inv_product_id (inventory_rows d)) \<or>
              inv_product_id row \<notin> set (map prod_id (products d))
      then Inl IntegrityError
      else Inr (d\<lparr>inventory_rows := inventory_rows d @ [row]\<rparr>))"

definition crud_create_inventory ::
    "db \<Rightarrow> nat \<Rightarrow> int \<Rightarrow> inventory_create \<Rightarrow> (error + inventory) \<times> db" where
  "crud_create_inventory d now new_id body =
     (let db_inventory = \<lparr> inv_id = new_id,
                           inv_product_id = ic_product_id body,
                           quantity_in_stock = ic_quantity_in_stock body,
                           reorder_level = ic_reorder_level body,
                           last_restocked_at =
                             (if ic_quantity_in_stock body > 0 then Some now else None) \<rparr>
      in (case insert_inventory d db_inventory of
            Inl e \<Rightarrow> (Inl e, d)
          | Inr d' \<Rightarrow> (Inr db_inventory, d')))"

text \<open>A value an update writes to an \<open>Integer\<close> column must lie in its range.\<close>

fun field_int4 :: "int field \<Rightarrow> bool" where
  "field_int4 (Given v) = int4 v"
| "field_int4 Unset = True"
| "field_int4 Null = True"

definition crud_update_inventory ::
    "db \<Rightarrow> int \<Rightarrow> inventory_update \<Rightarrow> (error + inventory option) \<times> db" where
  "crud_update_inventory d iid body =
     (case get_inventory d iid of
        None \<Rightarrow> (Inr None, d)
      | Some db_inventory \<Rightarrow>
          if \<not> (field_int4 (iu_quantity_in_stock body) \<and> field_int4 (iu_reorder_level body))
          then (Inl DataError, d)
          else if iu_quantity_in_stock body = Null \<or> iu_reorder_level body = Null
          then (Inl IntegrityError, d)
          else
            (let updated = db_inventory
                   \<lparr> quantity_in_stock :=
                       setattr (iu_quantity_in_stock body) (quantity_in_stock db_inventory),
                     reorder_level :=
                       setattr (iu_reorder_level body) (reorder_level db_inventory) \<rparr>
             in (Inr (Some updated),
                 d\<lparr>inventory_rows :=
                     update_first (\<lambda>r. inv_id r = iid) (\<lambda>r. updated) (inventory_rows d)\<rparr>)))"

definition crud_restock_inventory ::
    "db \<Rightarrow> nat \<Rightarrow> int \<Rightarrow> int \<Rightarrow> (error + inventory option) \<times> db" where
  "crud_restock_inventory d now iid quantity_to_add =
     (case get_inventory d iid of
        None \<Rightarrow> (Inr None, d)
      | Some db_inventory \<Rightarrow>
          (let updated = db_inventory
                 \<lparr> quantity_in_stock := quantity_in_stock db_inventory + quantity_to_add,
                   last_restocked_at := Some now \<rparr>
           in if \<not> int4 (quantity_in_stock updated) then (Inl DataError, d)
              else
                (Inr (Some updated),
                 d\<lparr>inventory_rows :=
                     update_first (\<lambda>r. inv_id r = iid) (\<lambda>r. updated) (inventory_rows d)\<rparr>)))"

definition crud_delete_inventory :: "db \<Rightarrow> int \<Rightarrow> inventory option \<times> db" where
  "crud_delete_inventory d iid =
     (case get_inventory d iid of
        None \<Rightarrow> (None, d)
      | Some db_inventory \<Rightarrow>
          (Some db_inventory,
           d\<lparr>inventory_rows := delete_first (\<lambda>r. inv_id r = iid) (inventory_rows d)\<rparr>))"

text \<open>
  The handlers of \<^verbatim>\<open>routers/inventory.py\<close>, body validation included. An exception
  of the data layer passes through a handler unchanged.
\<close>

definition inventory_create_inventory ::
    "db \<Rightarrow> nat \<Rightarrow> int \<Rightarrow> inventory_create \<Rightarrow> (error + inventory) \<times> db" where
  "inventory_create_inventory d now new_id body =
     (if \<not> valid_inventory_create body then (Inl ValidationError, d)
      else
        (case get_product d (ic_product_id body) of
           None \<Rightarrow> (Inl NotFound, d)
         | Some p \<Rightarrow>
             (case get_inventory_by_product d (ic_product_id body) of
                Some existing_inventory \<Rightarrow> (Inl InventoryExists, d)
              | None \<Rightarrow> crud_create_inventory d now new_id body)))"

definition inventory_update_inventory ::
    "db \<Rightarrow> int \<Rightarrow> inventory_update \<Rightarrow> (error + inventory) \<times> db" where
  "inventory_update_inventory d iid body =
     (if \<not> valid_inventory_update body then (Inl ValidationError, d)
      else
        (case crud_update_inventory d iid body of
           (Inl e, d') \<Rightarrow> (Inl e, d')
         | (Inr None, d') \<Rightarrow> (Inl NotFound, d')
         | (Inr (Some row), d') \<Rightarrow> (Inr row, d')))"

definition inventory_restock_inventory ::
    "db \<Rightarrow> nat \<Rightarrow> int \<Rightarrow> inventory_restock \<Rightarrow> (error + inventory) \<times> db" where
  "inventory_restock_inventory d now iid restock =
     (if \<not> valid_inventory_restock restock then (Inl ValidationError, d)
      else
        (case crud_restock_inventory d now iid (ir_quantity_to_add restock) of
           (Inl e, d') \<Rightarrow> (Inl e, d')
         | (Inr None, d') \<Rightarrow> (Inl NotFound, d')
         | (Inr (Some row), d') \<Rightarrow> (Inr row, d')))"

definition inventory_delete_inventory :: "db \<Rightarrow> int \<Rightarrow> (error + inventory) \<times> db" where
  "inventory_delete_inventory d iid =
     (case crud_delete_inventory d iid of
        (None, d') \<Rightarrow> (Inl NotFound, d')
      | (Some row, d') \<Rightarrow> (Inr row, d'))"

subsection \<open>Request sequences\<close>

text \<open>
  The requests that reach the order and inventory code, each with the clock reading at
  its arrival and the primary key the engine would issue to a row it inserts.
  \<open>DataCreateOrder\<close> is \<open>crud.create_order\<close> called directly, as the test module
  does. The remaining handlers of the application do not write the inventory table.
\<close>

datatype request =
    CreateInventory inventory_create
  | UpdateInventory int inventory_update
  | RestockInventory int inventory_restock
  | DeleteInventory int
  | CreateOrder int order_create
  | DataCreateOrder int order_create
  | UpdateOrder int int order_update
  | DeleteOrder int int

fun handle :: "db \<Rightarrow> nat \<times> int \<times> request \<Rightarrow> db" where
  "handle d (now, new_id, CreateInventory body) =
     snd (inventory_create_inventory d now new_id body)"
| "handle d (now, new_id, UpdateInventory iid body) = snd (inventory_update_inventory d iid body)"
| "handle d (now, new_id, RestockInventory iid body) =
     snd (inventory_restock_inventory d now iid body)"
| "handle d (now, new_id, DeleteInventory iid) = snd (inventory_delete_inventory d iid)"
| "handle d (now, new_id, CreateOrder uid body) = snd (orders_create_order d new_id uid body)"
| "handle d (now, new_id, DataCreateOrder uid body) = snd (crud_create_order d new_id uid body)"
| "handle d (now, new_id, UpdateOrder uid oid body) = snd (orders_update_order d uid oid body)"
| "handle d (now, new_id, DeleteOrder uid oid) = snd (orders_delete_order d uid oid)"

definition run :: "db \<Rightarrow> (nat \<times> int \<times> request) list \<Rightarrow> db" where
  "run d requests = fold (\<lambda>r s. handle s r) requests d"

definition stock_nonneg :: "db \<Rightarrow> bool" where
  "stock_nonneg d = list_all (\<lambda>r. 0 \<le> quantity_in_stock r) (inventory_rows d)"

subsection \<open>The databases of the test module (tests/test_order_locking.py)\<close>

text \<open>
  \<open>create_user\<close> inserts a user, \<open>create_product_and_inventory\<close> a product named
  \<open>Prod\<close> at \<open>Decimal("10.00")\<close> with an inventory row of reorder level 1, and
  \<open>create_cart_with_item\<close> a cart of a user with one item. The tables below are what
  these calls leave on empty tables, ids counted from 1.

  Scenario A: stock 3, user 1 holds a cart with two units.
\<close>

definition db_single :: db where
  "db_single =
     \<lparr> users = [1],
       products = [\<lparr> prod_id = 1, prod_sku = ''SKU_SINGLE'', prod_name = ''Prod'',
                     prod_price = 1000 \<rparr>],
       inventory_rows = [\<lparr> inv_id = 1, inv_product_id = 1, quantity_in_stock = 3,
                           reorder_level = 1, last_restocked_at = None \<rparr>],
       shopping_carts = [\<lparr> cart_id = 1, cart_user_id = 1 \<rparr>],
       shopping_cart_items = [\<lparr> item_id = 1, item_cart_id = 1, item_product_id = 1,
                                item_quantity = 2 \<rparr>],
       orders = [] \<rparr>"

text \<open>Scenario B: stock 1, users 1 and 2 each hold a cart with one unit.\<close>

definition db_conc :: db where
  "db_conc =
     \<lparr> users = [1, 2],
       products = [\<lparr> prod_id = 1, prod_sku = ''SKU_CONC'', prod_name = ''Prod'',
                     prod_price = 1000 \<rparr>],
       inventory_rows = [\<lparr> inv_id = 1, inv_product_id = 1, quantity_in_stock = 1,
                           reorder_level = 1, last_restocked_at = None \<rparr>],
       shopping_carts = [\<lparr> cart_id = 1, cart_user_id = 1 \<rparr>, \<lparr> cart_id = 2, cart_user_id = 2 \<rparr>],
       shopping_cart_items =
         [\<lparr> item_id = 1, item_cart_id = 1, item_product_id = 1, item_quantity = 1 \<rparr>,
          \<lparr> item_id = 2, item_cart_id = 2, item_product_id = 1, item_quantity = 1 \<rparr>],
       orders = [] \<rparr>"

text \<open>A cart that asks for five units of a product with three in stock.\<close>

definition db_short :: db where
  "db_short =
     \<lparr> users = [1],
       products = [\<lparr> prod_id = 1, prod_sku = ''SKU1'', prod_name = ''Prod'', prod_price = 1000 \<rparr>],
       inventory_rows = [\<lparr> inv_id = 1, inv_product_id = 1, quantity_in_stock = 3,
                           reorder_level = 1, last_restocked_at = None \<rparr>],
       shopping_carts = [\<lparr> cart_id = 1, cart_user_id = 1 \<rparr>],
       shopping_cart_items = [\<lparr> item_id = 1, item_cart_id = 1, item_product_id = 1,
                                item_quantity = 5 \<rparr>],
       orders = [] \<rparr>"

text \<open>User 1 has placed the order of Scenario A.\<close>

definition db_ordered :: db where
  "db_ordered =
     snd (crud_create_order db_single 1 1 \<lparr> oc_cart_id = 1, oc_address = ''123 Test St'' \<rparr>)"

text \<open>Scenario C: user 1 holds a cart with no items.\<close>

definition db_empty_cart :: db where
  "db_empty_cart =
     \<lparr> users = [1],
       products = [\<lparr> prod_id = 1, prod_sku = ''SKU1'', prod_name = ''Prod'', prod_price = 1000 \<rparr>],
       inventory_rows = [\<lparr> inv_id = 1, inv_product_id = 1, quantity_in_stock = 5,
                           reorder_level = 1, last_restocked_at = None \<rparr>],
       shopping_carts = [\<lparr> cart_id = 1, cart_user_id = 1 \<rparr>],
       shopping_cart_items = [],
       orders = [] \<rparr>"

text \<open>
  A product at the largest price its column holds, 99999999.99, with two units in the
  cart of user 1.
\<close>

definition db_dear :: db where
  "db_dear =
     \<lparr> users = [1],
       products = [\<lparr> prod_id = 1, prod_sku = ''SKU1'', prod_name = ''Prod'',
                     prod_price = 9999999999 \<rparr>],
       inventory_rows = [\<lparr> inv_id = 1, inv_product_id = 1, quantity_in_stock = 3,
                           reorder_level = 1, last_restocked_at = None \<rparr>],
       shopping_carts = [\<lparr> cart_id = 1, cart_user_id = 1 \<rparr>],
       shopping_cart_items = [\<lparr> item_id = 1, item_cart_id = 1, item_product_id = 1,
                                item_quantity = 2 \<rparr>],
       orders = [] \<rparr>"

section \<open>Auxiliary facts\<close>

lemmas lookup_defs =
  get_product_def get_shopping_cart_def get_order_def get_inventory_def
  get_inventory_by_product_def items_def

lemmas engine_defs = insert_order_def insert_inventory_def int4_def numeric_10_2_def

subsection \<open>Row lookup and row rewriting\<close>

lemma find_holds: "find P xs = Some x \<Longrightarrow> P x \<and> x \<in> set xs"
  by (induction xs) (auto split: if_splits)

lemma find_update_first:
  "find P xs = Some x \<Longrightarrow> P y \<Longrightarrow> find P (update_first P (\<lambda>r. y) xs) = Some y"
  by (induction xs) (auto split: if_splits)

lemma list_all_update_first:
  "list_all Q xs \<Longrightarrow> (\<And>x. Q x \<Longrightarrow> P x \<Longrightarrow> Q (f x)) \<Longrightarrow> list_all Q (update_first P f xs)"
  by (induction xs) auto

lemma list_all_delete_first: "list_all Q xs \<Longrightarrow> list_all Q (delete_first P xs)"
  by (induction xs) auto

lemma filter_all: "\<forall>x\<in>set xs. P x \<Longrightarrow> filter P xs = xs"
  by (induction xs) auto



subsection \<open>The test databases\<close>

lemma db_ordered_rows:
  "db_ordered =
     db_single \<lparr> orders := [\<lparr> order_id = 1, order_user_id = 1, order_cart_id = 1,
          order_address = ''123 Test St'', order_status = ''pending'', total_amount = 2000 \<rparr>] \<rparr>"
  by (simp add: db_ordered_def db_single_def crud_create_order_def lookup_defs engine_defs
      Let_def)

subsection \<open>The total of an order\<close>

lemma add_totals_sum:
  "add_totals d xs amount =
     amount + (\<Sum>item\<leftarrow>filter (\<lambda>i. get_product d (item_product_id i) \<noteq> None) xs.
                 prod_price (the (get_product d (item_product_id item))) * item_quantity item)"
  by (induction xs arbitrary: amount) (auto split: option.splits)

subsection \<open>What a call of the data layer leaves behind\<close>

lemma insert_order_result:
  "insert_order d row = Inl DataError \<or> insert_order d row = Inl IntegrityError \<or>
   insert_order d row = Inr (d\<lparr>orders := orders d @ [row]\<rparr>)"
  by (simp add: insert_order_def)

lemma crud_create_order_raises:
  assumes "crud_create_order d new_id uid ordr = (Inl e, d')"
  shows "d' = d"
  using assms by (simp add: crud_create_order_def Let_def split: sum.splits)

lemma crud_create_order_returns:
  assumes "crud_create_order d new_id uid ordr = (Inr db_order, d')"
  shows "d' = d\<lparr>orders := orders d @ [db_order]\<rparr>"
  using assms insert_order_result [of d db_order]
  by (auto simp add: crud_create_order_def Let_def split: sum.splits)

lemma crud_create_order_total_overflow:
  "crud_create_order db_dear 1 1 \<lparr> oc_cart_id = 1, oc_address = ''Addr'' \<rparr> =
     (Inl DataError, db_dear)"
  by (simp add: db_dear_def crud_create_order_def lookup_defs engine_defs Let_def)

subsection \<open>The order handler never commits\<close>

lemma call_with_customer_id:
  "call_crud_create_order [''db'', ''customer_id'', ''order''] d new_id uid ordr =
     (Inl TypeError, d)"
  by (simp add: call_crud_create_order_def crud_create_order_params_def)

lemma orders_create_order_state: "snd (orders_create_order d new_id uid ordr) = d"
  by (simp add: orders_create_order_def call_with_customer_id split: option.splits sum.splits)

subsection \<open>Each handler keeps stock non-negative\<close>

lemma stock_nonneg_create:
  "stock_nonneg d \<Longrightarrow> stock_nonneg (snd (inventory_create_inventory d now new_id body))"
  by (auto simp add: inventory_create_inventory_def crud_create_inventory_def
      insert_inventory_def valid_inventory_create_def stock_nonneg_def Let_def
      split: option.splits)

lemma setattr_ge: "field_ge 0 f \<Longrightarrow> 0 \<le> column \<Longrightarrow> 0 \<le> setattr f column"
  by (cases f) auto

lemma stock_nonneg_update:
  assumes "stock_nonneg d"
  shows "stock_nonneg (snd (inventory_update_inventory d iid body))"
proof (cases "valid_inventory_update body \<and> field_int4 (iu_quantity_in_stock body) \<and>
    field_int4 (iu_reorder_level body) \<and> iu_quantity_in_stock body \<noteq> Null \<and>
    iu_reorder_level body \<noteq> Null")
  case False
  then show ?thesis
    using assms
    by (auto simp add: inventory_update_inventory_def crud_update_inventory_def
        split: option.splits)
next
  case True
  show ?thesis
  proof (cases "get_inventory d iid")
    case None
    with True assms show ?thesis
      by (simp add: inventory_update_inventory_def crud_update_inventory_def)
  next
    case (Some row)
    then have "row \<in> set (inventory_rows d)"
      using find_holds [of "\<lambda>i. inv_id i = iid" "inventory_rows d" row]
      by (simp add: get_inventory_def)
    with assms have "0 \<le> quantity_in_stock row"
      by (simp add: stock_nonneg_def list_all_iff)
    with True have "0 \<le> setattr (iu_quantity_in_stock body) (quantity_in_stock row)"
      by (simp add: valid_inventory_update_def setattr_ge)
    with assms True Some show ?thesis
      by (simp add: inventory_update_inventory_def crud_update_inventory_def Let_def
          stock_nonneg_def list_all_update_first)
  qed
qed

lemma stock_nonneg_restock:
  assumes "stock_nonneg d"
  shows "stock_nonneg (snd (inventory_restock_inventory d now iid body))"
proof (cases "valid_inventory_restock body")
  case False
  with assms show ?thesis
    by (simp add: inventory_restock_inventory_def)
next
  case True
  show ?thesis
  proof (cases "get_inventory d iid")
    case None
    with True assms show ?thesis
      by (simp add: inventory_restock_inventory_def crud_restock_inventory_def)
  next
    case (Some row)
    then have "row \<in> set (inventory_rows d)"
      using find_holds [of "\<lambda>i. inv_id i = iid" "inventory_rows d" row]
      by (simp add: get_inventory_def)
    with assms have "0 \<le> quantity_in_stock row"
      by (simp add: stock_nonneg_def list_all_iff)
    with True have "0 \<le> quantity_in_stock row + ir_quantity_to_add body"
      by (simp add: valid_inventory_restock_def)
    with assms True Some show ?thesis
      by (simp add: inventory_restock_inventory_def crud_restock_inventory_def Let_def
          stock_nonneg_def list_all_update_first)
  qed
qed

lemma stock_nonneg_delete:
  "stock_nonneg d \<Longrightarrow> stock_nonneg (snd (inventory_delete_inventory d iid))"
  by (auto simp add: inventory_delete_inventory_def crud_delete_inventory_def
      stock_nonneg_def list_all_delete_first split: option.splits)

lemma inventory_rows_crud_create_order:
  "inventory_rows (snd (crud_create_order d new_id uid body)) = inventory_rows d"
  by (simp add: crud_create_order_def insert_order_def Let_def)

lemma inventory_rows_update_order:
  "inventory_rows (snd (orders_update_order d uid oid body)) = inventory_rows d"
  by (auto simp add: orders_update_order_def crud_update_order_def Let_def
      split: option.splits)

lemma inventory_rows_delete_order:
  "inventory_rows (snd (orders_delete_order d uid oid)) = inventory_rows d"
  by (auto simp add: orders_delete_order_def crud_delete_order_def split: option.splits)

lemma stock_nonneg_handle: "stock_nonneg d \<Longrightarrow> stock_nonneg (handle d r)"
proof -
  assume inv: "stock_nonneg d"
  obtain now new_id req where r: "r = (now, new_id, req)"
    by (cases r) auto
  show ?thesis
  proof (cases req)
    case (CreateInventory body)
    with r inv show ?thesis by (simp add: stock_nonneg_create)
  next
    case (UpdateInventory iid body)
    with r inv show ?thesis by (simp add: stock_nonneg_update)
  next
    case (RestockInventory iid body)
    with r inv show ?thesis by (simp add: stock_nonneg_restock)
  next
    case (DeleteInventory iid)
    with r inv show ?thesis by (simp add: stock_nonneg_delete)
  next
    case (CreateOrder uid body)
    with r inv show ?thesis by (simp add: orders_create_order_state)
  next
    case (DataCreateOrder uid body)
    with r inv show ?thesis
      by (simp add: stock_nonneg_def inventory_rows_crud_create_order)
  next
    case (UpdateOrder uid oid body)
    with r inv show ?thesis
      by (simp add: stock_nonneg_def inventory_rows_update_order)
  next
    case (DeleteOrder uid oid)
    with r inv show ?thesis
      by (simp add: stock_nonneg_def inventory_rows_delete_order)
  qed
qed

subsection \<open>What the order ledger does reject\<close>

lemma unknown_status_rejected:
  assumes "get_order d oid = Some ordr" and "order_user_id ordr = uid"
    and "s \<noteq> []" and "s \<notin> set valid_statuses"
  shows "orders_update_order d uid oid (body\<lparr> ou_order_status := Given s \<rparr>) =
    (Inl InvalidStatus, d)"
  using assms by (simp add: orders_update_order_def)

lemma shipped_order_not_deleted:
  assumes "get_order d oid = Some ordr"
    and "order_status ordr = ''shipped'' \<or> order_status ordr = ''delivered''"
  shows "orders_delete_order d uid oid = (Inl Forbidden, d) \<or>
    orders_delete_order d uid oid = (Inl CannotDelete, d)"
  using assms by (auto simp add: orders_delete_order_def)

section \<open>The claims\<close>

text \<open>
  Claim C1. Against a product with one unit in stock, two contending \<open>create_order\<close>
  calls from two users' carts, one unit each, must end with exactly one order, the other
  call failing with \<open>InsufficientStock\<close>, and with stock 0.

  Running the two calls one after the other is one of the schedules the threads of
  \<open>test_concurrent_orders_do_not_oversell\<close> may take. On it \<open>crud.create_order\<close>, the
  function the test calls, returns an order to both users, stores both and leaves the
  stock at 1, in either order of the users; the handler raises \<open>AttributeError\<close> for
  both users and creates no order.
\<close>

theorem serial_orders_oversell:
  "(case crud_create_order db_conc 1 1 \<lparr> oc_cart_id = 1, oc_address = ''Addr'' \<rparr> of
      (result1, d1) \<Rightarrow>
        (case crud_create_order d1 2 2 \<lparr> oc_cart_id = 2, oc_address = ''Addr'' \<rparr> of
           (result2, d2) \<Rightarrow>
             [result1, result2] = map Inr (orders d2) \<and>
             map order_user_id (orders d2) = [1, 2] \<and>
             map quantity_in_stock (inventory_rows d2) = [1])) \<and>
   (case crud_create_order db_conc 1 2 \<lparr> oc_cart_id = 2, oc_address = ''Addr'' \<rparr> of
      (result2, d1) \<Rightarrow>
        (case crud_create_order d1 2 1 \<lparr> oc_cart_id = 1, oc_address = ''Addr'' \<rparr> of
           (result1, d2) \<Rightarrow>
             [result2, result1] = map Inr (orders d2) \<and>
             map order_user_id (orders d2) = [2, 1] \<and>
             map quantity_in_stock (inventory_rows d2) = [1])) \<and>
   orders_create_order db_conc 1 1 \<lparr> oc_cart_id = 1, oc_address = ''Addr'' \<rparr> =
     (Inl AttributeError, db_conc) \<and>
   orders_create_order db_conc 1 2 \<lparr> oc_cart_id = 2, oc_address = ''Addr'' \<rparr> =
     (Inl AttributeError, db_conc)"
  by (simp add: db_conc_def crud_create_order_def orders_create_order_def lookup_defs
      engine_defs product_quantity_def Let_def)

text \<open>
  Claim C2. Scenario A: with stock 3 and a cart of the caller holding two units,
  \<open>create_order\<close> returns the order, after which the stock is 1 and the cart has no items.

  On the database of \<open>test_single_order_decrements_and_clears_cart\<close> the data-layer
  function returns the pending order with total 20.00, but the stock is still 3 and the
  cart still holds its item of quantity 2; the handler raises \<open>AttributeError\<close> and
  commits nothing.
\<close>

theorem single_order_keeps_stock_and_cart:
  "fst (crud_create_order db_single 1 1 \<lparr> oc_cart_id = 1, oc_address = ''123 Test St'' \<rparr>) =
     Inr \<lparr> order_id = 1, order_user_id = 1, order_cart_id = 1, order_address = ''123 Test St'',
           order_status = ''pending'', total_amount = 2000 \<rparr> \<and>
   map quantity_in_stock
     (inventory_rows (snd (crud_create_order db_single 1 1
        \<lparr> oc_cart_id = 1, oc_address = ''123 Test St'' \<rparr>))) = [3] \<and>
   map item_quantity
     (items (snd (crud_create_order db_single 1 1
        \<lparr> oc_cart_id = 1, oc_address = ''123 Test St'' \<rparr>))
        \<lparr> cart_id = 1, cart_user_id = 1 \<rparr>) = [2] \<and>
   orders_create_order db_single 1 1 \<lparr> oc_cart_id = 1, oc_address = ''123 Test St'' \<rparr> =
     (Inl AttributeError, db_single)"
  by (simp add: db_single_def crud_create_order_def orders_create_order_def lookup_defs
      engine_defs product_quantity_def Let_def)

text \<open>
  Claim C3. When some item of the cart asks for more than the stock of its product,
  \<open>create_order\<close> fails with \<open>InsufficientStock\<close>, naming the product and the quantity
  available, and decrements no stock.

  For a cart asking for five units of a product with three in stock, the handler leaves
  the database as it was but the error it raises is \<open>AttributeError\<close>, from the read of
  \<open>product.quantity\<close> in its stock check; the data-layer function raises nothing and
  creates the order for the five units.
\<close>

theorem short_stock_not_reported:
  "orders_create_order db_short 1 1 \<lparr> oc_cart_id = 1, oc_address = ''Addr'' \<rparr> =
     (Inl AttributeError, db_short) \<and>
   map quantity_in_stock (inventory_rows db_short) = [3] \<and>
   map item_quantity (items db_short \<lparr> cart_id = 1, cart_user_id = 1 \<rparr>) = [5] \<and>
   fst (crud_create_order db_short 1 1 \<lparr> oc_cart_id = 1, oc_address = ''Addr'' \<rparr>) =
     Inr \<lparr> order_id = 1, order_user_id = 1, order_cart_id = 1, order_address = ''Addr'',
           order_status = ''pending'', total_amount = 5000 \<rparr>"
  by (simp add: db_short_def crud_create_order_def orders_create_order_def lookup_defs
      engine_defs product_quantity_def Let_def)

text \<open>
  Claim C4. A call of \<open>create_order\<close> that fails leaves the inventory rows, the items
  of the carts and the number of order rows as they were before the call.

  This holds of both functions of that name. Every raise of the handler precedes any
  write. \<open>crud.create_order\<close> fails only when the engine refuses its commit (a cart or
  user that does not exist, a primary key already taken, a value outside the range of its
  column), and a refused commit stores nothing.
\<close>

theorem create_order_failure_keeps_state:
  assumes "orders_create_order d new_id uid ordr = (Inl e, d') \<or>
           crud_create_order d new_id uid ordr = (Inl e, d')"
  shows "inventory_rows d' = inventory_rows d \<and>
         shopping_cart_items d' = shopping_cart_items d \<and>
         length (orders d') = length (orders d)"
proof -
  from assms have "d' = d"
  proof
    assume "orders_create_order d new_id uid ordr = (Inl e, d')"
    then have "d' = snd (orders_create_order d new_id uid ordr)"
      by simp
    then show ?thesis
      by (simp add: orders_create_order_state)
  next
    assume "crud_create_order d new_id uid ordr = (Inl e, d')"
    then show ?thesis
      by (rule crud_create_order_raises)
  qed
  then show ?thesis by simp
qed

theorem create_order_failure_keeps_state_witness:
  "orders_create_order db_short 1 1 \<lparr> oc_cart_id = 1, oc_address = ''Addr'' \<rparr> =
     (Inl AttributeError, db_short) \<and>
   crud_create_order db_single 1 1 \<lparr> oc_cart_id = 7, oc_address = ''Addr'' \<rparr> =
     (Inl IntegrityError, db_single) \<and>
   crud_create_order db_single 1 5 \<lparr> oc_cart_id = 1, oc_address = ''Addr'' \<rparr> =
     (Inl IntegrityError, db_single) \<and>
   crud_create_order db_dear 1 1 \<lparr> oc_cart_id = 1, oc_address = ''Addr'' \<rparr> =
     (Inl DataError, db_dear) \<and>
   map quantity_in_stock (inventory_rows db_short) = [3] \<and>
   map item_quantity (shopping_cart_items db_short) = [5] \<and>
   length (orders db_short) = 0 \<and>
   map quantity_in_stock (inventory_rows db_single) = [3] \<and>
   map item_quantity (shopping_cart_items db_single) = [2] \<and>
   length (orders db_single) = 0"
proof -
  have handler: "orders_create_order db_short 1 1 \<lparr> oc_cart_id = 1, oc_address = ''Addr'' \<rparr> =
     (Inl AttributeError, db_short)"
    by (simp add: db_short_def orders_create_order_def lookup_defs product_quantity_def)
  have no_cart: "crud_create_order db_single 1 1 \<lparr> oc_cart_id = 7, oc_address = ''Addr'' \<rparr> =
     (Inl IntegrityError, db_single)"
    by (simp add: db_single_def crud_create_order_def lookup_defs engine_defs Let_def)
  have no_user: "crud_create_order db_single 1 5 \<lparr> oc_cart_id = 1, oc_address = ''Addr'' \<rparr> =
     (Inl IntegrityError, db_single)"
    by (simp add: db_single_def crud_create_order_def lookup_defs engine_defs Let_def)
  have too_large: "crud_create_order db_dear 1 1 \<lparr> oc_cart_id = 1, oc_address = ''Addr'' \<rparr> =
     (Inl DataError, db_dear)"
    by (simp add: db_dear_def crud_create_order_def lookup_defs engine_defs Let_def)
  note create_order_failure_keeps_state [OF disjI1, OF handler]
    create_order_failure_keeps_state [OF disjI2, OF no_cart]
    create_order_failure_keeps_state [OF disjI2, OF no_user]
    create_order_failure_keeps_state [OF disjI2, OF too_large]
  with handler no_cart no_user too_large show ?thesis
    by (simp add: db_short_def db_single_def)
qed

text \<open>
  Claim C5. \<open>create_order\<close> fails with \<open>NotFound\<close> when no cart has the given id, with
  \<open>Forbidden\<close> when the cart belongs to another user than the caller, and with
  \<open>EmptyCart\<close> when the caller's cart has no items; in each case the inventory is
  untouched (the committed state is the state before the call).
\<close>

theorem orders_create_order_cart_checks:
  "(get_shopping_cart d (oc_cart_id ordr) = None
      \<longrightarrow> orders_create_order d new_id uid ordr = (Inl NotFound, d)) \<and>
   (\<forall>cart. get_shopping_cart d (oc_cart_id ordr) = Some cart \<and> cart_user_id cart \<noteq> uid
      \<longrightarrow> orders_create_order d new_id uid ordr = (Inl Forbidden, d)) \<and>
   (\<forall>cart. get_shopping_cart d (oc_cart_id ordr) = Some cart \<and> cart_user_id cart = uid
            \<and> items d cart = []
      \<longrightarrow> orders_create_order d new_id uid ordr = (Inl EmptyCart, d))"
  by (simp add: orders_create_order_def)

theorem orders_create_order_cart_checks_witness:
  "get_shopping_cart db_single 7 = None \<and>
   orders_create_order db_single 1 1 \<lparr> oc_cart_id = 7, oc_address = ''Addr'' \<rparr> =
     (Inl NotFound, db_single) \<and>
   get_shopping_cart db_single 1 = Some \<lparr> cart_id = 1, cart_user_id = 1 \<rparr> \<and>
   orders_create_order db_single 1 2 \<lparr> oc_cart_id = 1, oc_address = ''Addr'' \<rparr> =
     (Inl Forbidden, db_single) \<and>
   get_shopping_cart db_empty_cart 1 = Some \<lparr> cart_id = 1, cart_user_id = 1 \<rparr> \<and>
   items db_empty_cart \<lparr> cart_id = 1, cart_user_id = 1 \<rparr> = [] \<and>
   orders_create_order db_empty_cart 1 1 \<lparr> oc_cart_id = 1, oc_address = ''Addr'' \<rparr> =
     (Inl EmptyCart, db_empty_cart)"
proof -
  have none:
    "get_shopping_cart db_single (oc_cart_id \<lparr> oc_cart_id = 7, oc_address = ''Addr'' \<rparr>) = None"
    by (simp add: db_single_def get_shopping_cart_def)
  have other:
    "get_shopping_cart db_single (oc_cart_id \<lparr> oc_cart_id = 1, oc_address = ''Addr'' \<rparr>)
        = Some \<lparr> cart_id = 1, cart_user_id = 1 \<rparr>
     \<and> cart_user_id \<lparr> cart_id = 1, cart_user_id = 1 \<rparr> \<noteq> 2"
    by (simp add: db_single_def get_shopping_cart_def)
  have empty:
    "get_shopping_cart db_empty_cart (oc_cart_id \<lparr> oc_cart_id = 1, oc_address = ''Addr'' \<rparr>)
        = Some \<lparr> cart_id = 1, cart_user_id = 1 \<rparr>
     \<and> cart_user_id \<lparr> cart_id = 1, cart_user_id = 1 \<rparr> = 1
     \<and> items db_empty_cart \<lparr> cart_id = 1, cart_user_id = 1 \<rparr> = []"
    by (simp add: db_empty_cart_def get_shopping_cart_def items_def)
  note absent = orders_create_order_cart_checks
      [of db_single "\<lparr> oc_cart_id = 7, oc_address = ''Addr'' \<rparr>" 1 1,
       THEN conjunct1, rule_format, OF none]
  note foreign = orders_create_order_cart_checks
      [of db_single "\<lparr> oc_cart_id = 1, oc_address = ''Addr'' \<rparr>" 1 2,
       THEN conjunct2, THEN conjunct1, rule_format, OF other]
  note no_items = orders_create_order_cart_checks
      [of db_empty_cart "\<lparr> oc_cart_id = 1, oc_address = ''Addr'' \<rparr>" 1 1,
       THEN conjunct2, THEN conjunct2, rule_format, OF empty]
  from absent foreign no_items none other empty show ?thesis
    by simp
qed

text \<open>
  Claim C6. On successful order creation, when the cart exists and every product its
  items name exists, the order created is stored, has status \<open>pending\<close> and has a total
  that is the exact sum, over the items of the cart, of the product's price at the time
  of the call times the quantity. Amounts are counted in hundredths, so the sum is exact.
  A call whose commit the engine refuses creates no order
  (\<open>crud_create_order_total_overflow\<close> is one whose total exceeds the column).
\<close>

theorem crud_create_order_total:
  assumes "crud_create_order d new_id uid ordr = (Inr db_order, d')"
    and "get_shopping_cart d (oc_cart_id ordr) = Some cart"
    and "\<forall>item\<in>set (items d cart). get_product d (item_product_id item) \<noteq> None"
  shows "d' = d\<lparr>orders := orders d @ [db_order]\<rparr>
       \<and> order_status db_order = ''pending''
       \<and> total_amount db_order =
           (\<Sum>item\<leftarrow>items d cart.
              prod_price (the (get_product d (item_product_id item))) * item_quantity item)"
proof -
  have stored: "d' = d\<lparr>orders := orders d @ [db_order]\<rparr>"
    using assms(1) by (rule crud_create_order_returns)
  have "order_status db_order = ''pending'' \<and>
      total_amount db_order =
        (\<Sum>item\<leftarrow>filter (\<lambda>i. get_product d (item_product_id i) \<noteq> None) (items d cart).
           prod_price (the (get_product d (item_product_id item))) * item_quantity item)"
    using assms(1,2)
    by (auto simp add: crud_create_order_def Let_def add_totals_sum split: sum.splits)
  with stored assms(3) show ?thesis
    by (simp add: filter_all)
qed

theorem crud_create_order_total_witness:
  "crud_create_order db_single 1 1 \<lparr> oc_cart_id = 1, oc_address = ''Addr'' \<rparr> =
     (Inr \<lparr> order_id = 1, order_user_id = 1, order_cart_id = 1, order_address = ''Addr'',
            order_status = ''pending'', total_amount = 2 * 1000 \<rparr>,
      db_single \<lparr> orders := [\<lparr> order_id = 1, order_user_id = 1, order_cart_id = 1,
            order_address = ''Addr'', order_status = ''pending'', total_amount = 2 * 1000 \<rparr>] \<rparr>) \<and>
   get_shopping_cart db_single 1 = Some \<lparr> cart_id = 1, cart_user_id = 1 \<rparr> \<and>
   list_all (\<lambda>item. get_product db_single (item_product_id item) \<noteq> None)
     (items db_single \<lparr> cart_id = 1, cart_user_id = 1 \<rparr>)"
proof -
  have created: "crud_create_order db_single 1 1 \<lparr> oc_cart_id = 1, oc_address = ''Addr'' \<rparr> =
     (Inr \<lparr> order_id = 1, order_user_id = 1, order_cart_id = 1, order_address = ''Addr'',
            order_status = ''pending'', total_amount = 2000 \<rparr>,
      db_single \<lparr> orders := [\<lparr> order_id = 1, order_user_id = 1, order_cart_id = 1,
            order_address = ''Addr'', order_status = ''pending'', total_amount = 2000 \<rparr>] \<rparr>)"
    by (simp add: db_single_def crud_create_order_def lookup_defs engine_defs Let_def)
  have cart:
    "get_shopping_cart db_single (oc_cart_id \<lparr> oc_cart_id = 1, oc_address = ''Addr'' \<rparr>)
      = Some \<lparr> cart_id = 1, cart_user_id = 1 \<rparr>"
    by (simp add: db_single_def get_shopping_cart_def)
  have prods: "\<forall>item\<in>set (items db_single \<lparr> cart_id = 1, cart_user_id = 1 \<rparr>).
      get_product db_single (item_product_id item) \<noteq> None"
    by (simp add: db_single_def items_def get_product_def)
  from crud_create_order_total [OF created cart prods] created cart prods show ?thesis
    by (simp add: list_all_iff)
qed

text \<open>
  Claim C7. Every operation keeps \<open>quantity_in_stock \<ge> 0\<close> on every inventory row:
  from a state where it holds, no sequence of requests reaches a state where it fails.
  Restock adds a positive amount, creation and update take a quantity validated to be
  non-negative, and the order operations do not write the inventory table.
\<close>

theorem stock_nonneg_run: "stock_nonneg d \<Longrightarrow> stock_nonneg (run d requests)"
  unfolding run_def
  by (induction requests arbitrary: d) (simp_all add: stock_nonneg_handle)

theorem stock_nonneg_run_witness:
  "stock_nonneg db_single \<and>
   stock_nonneg (run db_single
     [(5, 2, RestockInventory 1 \<lparr> ir_quantity_to_add = 4 \<rparr>),
      (6, 2, RestockInventory 1 \<lparr> ir_quantity_to_add = - 9 \<rparr>),
      (7, 2, UpdateInventory 1 \<lparr> iu_quantity_in_stock = Given (- 1), iu_reorder_level = Unset \<rparr>),
      (8, 1, DataCreateOrder 1 \<lparr> oc_cart_id = 1, oc_address = ''Addr'' \<rparr>),
      (9, 2, CreateOrder 1 \<lparr> oc_cart_id = 1, oc_address = ''Addr'' \<rparr>)]) \<and>
   map quantity_in_stock (inventory_rows (run db_single
     [(5, 2, RestockInventory 1 \<lparr> ir_quantity_to_add = 4 \<rparr>),
      (6, 2, RestockInventory 1 \<lparr> ir_quantity_to_add = - 9 \<rparr>),
      (7, 2, UpdateInventory 1 \<lparr> iu_quantity_in_stock = Given (- 1), iu_reorder_level = Unset \<rparr>),
      (8, 1, DataCreateOrder 1 \<lparr> oc_cart_id = 1, oc_address = ''Addr'' \<rparr>),
      (9, 2, CreateOrder 1 \<lparr> oc_cart_id = 1, oc_address = ''Addr'' \<rparr>)])) = [7]"
proof -
  have start: "stock_nonneg db_single"
    by (simp add: db_single_def stock_nonneg_def)
  have final: "map quantity_in_stock (inventory_rows (run db_single
     [(5, 2, RestockInventory 1 \<lparr> ir_quantity_to_add = 4 \<rparr>),
      (6, 2, RestockInventory 1 \<lparr> ir_quantity_to_add = - 9 \<rparr>),
      (7, 2, UpdateInventory 1 \<lparr> iu_quantity_in_stock = Given (- 1), iu_reorder_level = Unset \<rparr>),
      (8, 1, DataCreateOrder 1 \<lparr> oc_cart_id = 1, oc_address = ''Addr'' \<rparr>),
      (9, 2, CreateOrder 1 \<lparr> oc_cart_id = 1, oc_address = ''Addr'' \<rparr>)])) = [7]"
    by (simp add: run_def db_single_def inventory_restock_inventory_def
        valid_inventory_restock_def crud_restock_inventory_def get_inventory_def Let_def
        inventory_update_inventory_def valid_inventory_update_def int4_def
        inventory_rows_crud_create_order orders_create_order_state)
  from stock_nonneg_run [OF start] start final show ?thesis
    by simp
qed

text \<open>
  Claim C8, as amended. For an existing inventory record and a quantity to add of at
  least 1 whose sum with the stock lies in the range of the \<open>Integer\<close> column, restock
  returns the record with \<open>quantity_in_stock\<close> increased by exactly that quantity and
  \<open>last_restocked_at\<close> set to the clock reading, and the stored record is the one
  returned; when the sum lies outside the range the commit raises \<open>DataError\<close> and the
  record stays as it was; a quantity that is not positive is rejected by validation; a
  missing record gives \<open>NotFound\<close>.
\<close>

theorem restock_inventory_result:
  "(\<forall>row. get_inventory d iid = Some row \<and> 1 \<le> ir_quantity_to_add body
            \<and> int4 (quantity_in_stock row + ir_quantity_to_add body)
      \<longrightarrow> (\<exists>d'. inventory_restock_inventory d now iid body =
                 (Inr (row\<lparr> quantity_in_stock := quantity_in_stock row + ir_quantity_to_add body,
                            last_restocked_at := Some now \<rparr>), d')
               \<and> get_inventory d' iid =
                   Some (row\<lparr> quantity_in_stock := quantity_in_stock row + ir_quantity_to_add body,
                              last_restocked_at := Some now \<rparr>))) \<and>
   (\<forall>row. get_inventory d iid = Some row \<and> 1 \<le> ir_quantity_to_add body
            \<and> \<not> int4 (quantity_in_stock row + ir_quantity_to_add body)
      \<longrightarrow> inventory_restock_inventory d now iid body = (Inl DataError, d)) \<and>
   (ir_quantity_to_add body \<le> 0
      \<longrightarrow> inventory_restock_inventory d now iid body = (Inl ValidationError, d)) \<and>
   (get_inventory d iid = None \<and> 1 \<le> ir_quantity_to_add body
      \<longrightarrow> inventory_restock_inventory d now iid body = (Inl NotFound, d))"
proof (intro conjI allI impI)
  fix row
  assume h: "get_inventory d iid = Some row \<and> 1 \<le> ir_quantity_to_add body
            \<and> int4 (quantity_in_stock row + ir_quantity_to_add body)"
  let ?new = "row\<lparr> quantity_in_stock := quantity_in_stock row + ir_quantity_to_add body,
                     last_restocked_at := Some now \<rparr>"
  let ?d' = "d\<lparr>inventory_rows :=
                 update_first (\<lambda>r. inv_id r = iid) (\<lambda>r. ?new) (inventory_rows d)\<rparr>"
  from h have found: "find (\<lambda>i. inv_id i = iid) (inventory_rows d) = Some row"
    by (simp add: get_inventory_def)
  then have key: "inv_id ?new = iid"
    using find_holds [OF found] by simp
  have res: "inventory_restock_inventory d now iid body = (Inr ?new, ?d')"
    using h by (simp add: inventory_restock_inventory_def valid_inventory_restock_def
        crud_restock_inventory_def int4_def Let_def)
  have "get_inventory ?d' iid = Some ?new"
    using find_update_first [OF found, of ?new] key by (simp add: get_inventory_def)
  with res show "\<exists>d'. inventory_restock_inventory d now iid body = (Inr ?new, d')
           \<and> get_inventory d' iid = Some ?new"
    by blast
next
  fix row
  assume "get_inventory d iid = Some row \<and> 1 \<le> ir_quantity_to_add body
            \<and> \<not> int4 (quantity_in_stock row + ir_quantity_to_add body)"
  then show "inventory_restock_inventory d now iid body = (Inl DataError, d)"
    by (simp add: inventory_restock_inventory_def valid_inventory_restock_def
        crud_restock_inventory_def int4_def Let_def)
next
  assume "ir_quantity_to_add body \<le> 0"
  then show "inventory_restock_inventory d now iid body = (Inl ValidationError, d)"
    by (simp add: inventory_restock_inventory_def valid_inventory_restock_def)
next
  assume "get_inventory d iid = None \<and> 1 \<le> ir_quantity_to_add body"
  then show "inventory_restock_inventory d now iid body = (Inl NotFound, d)"
    by (simp add: inventory_restock_inventory_def valid_inventory_restock_def
        crud_restock_inventory_def)
qed

theorem restock_inventory_result_witness:
  "inventory_restock_inventory db_single 5 1 \<lparr> ir_quantity_to_add = 4 \<rparr> =
     (Inr \<lparr> inv_id = 1, inv_product_id = 1, quantity_in_stock = 7, reorder_level = 1,
            last_restocked_at = Some 5 \<rparr>,
      db_single \<lparr> inventory_rows := [\<lparr> inv_id = 1, inv_product_id = 1, quantity_in_stock = 7,
            reorder_level = 1, last_restocked_at = Some 5 \<rparr>] \<rparr>) \<and>
   inventory_restock_inventory db_single 5 1 \<lparr> ir_quantity_to_add = 2147483645 \<rparr> =
     (Inl DataError, db_single) \<and>
   inventory_restock_inventory db_single 5 1 \<lparr> ir_quantity_to_add = 0 \<rparr> =
     (Inl ValidationError, db_single) \<and>
   inventory_restock_inventory db_single 5 9 \<lparr> ir_quantity_to_add = 4 \<rparr> =
     (Inl NotFound, db_single)"
proof -
  let ?row = "\<lparr> inv_id = 1, inv_product_id = 1, quantity_in_stock = 3,
               reorder_level = 1, last_restocked_at = None \<rparr>"
  have row: "get_inventory db_single 1 = Some ?row
      \<and> 1 \<le> ir_quantity_to_add \<lparr> ir_quantity_to_add = 4 \<rparr>
      \<and> int4 (quantity_in_stock ?row + ir_quantity_to_add \<lparr> ir_quantity_to_add = 4 \<rparr>)"
    by (simp add: db_single_def get_inventory_def int4_def)
  have over: "get_inventory db_single 1 = Some ?row
      \<and> 1 \<le> ir_quantity_to_add \<lparr> ir_quantity_to_add = 2147483645 \<rparr>
      \<and> \<not> int4
          (quantity_in_stock ?row + ir_quantity_to_add \<lparr> ir_quantity_to_add = 2147483645 \<rparr>)"
    by (simp add: db_single_def get_inventory_def int4_def)
  have bad: "ir_quantity_to_add \<lparr> ir_quantity_to_add = 0 \<rparr> \<le> 0"
    by simp
  have missing:
    "get_inventory db_single 9 = None \<and> 1 \<le> ir_quantity_to_add \<lparr> ir_quantity_to_add = 4 \<rparr>"
    by (simp add: db_single_def get_inventory_def)
  note added = restock_inventory_result
      [of db_single 1 "\<lparr> ir_quantity_to_add = 4 \<rparr>" 5, THEN conjunct1, rule_format, OF row]
  note refused = restock_inventory_result
      [of db_single 1 "\<lparr> ir_quantity_to_add = 2147483645 \<rparr>" 5,
       THEN conjunct2, THEN conjunct1, rule_format, OF over]
  note rejected = restock_inventory_result
      [of db_single 1 "\<lparr> ir_quantity_to_add = 0 \<rparr>" 5,
       THEN conjunct2, THEN conjunct2, THEN conjunct1, rule_format, OF bad]
  note absent = restock_inventory_result
      [of db_single 9 "\<lparr> ir_quantity_to_add = 4 \<rparr>" 5,
       THEN conjunct2, THEN conjunct2, THEN conjunct2, rule_format, OF missing]
  have state: "snd (inventory_restock_inventory db_single 5 1 \<lparr> ir_quantity_to_add = 4 \<rparr>) =
      db_single \<lparr> inventory_rows := [\<lparr> inv_id = 1, inv_product_id = 1, quantity_in_stock = 7,
            reorder_level = 1, last_restocked_at = Some 5 \<rparr>] \<rparr>"
    by (simp add: db_single_def inventory_restock_inventory_def valid_inventory_restock_def
        crud_restock_inventory_def get_inventory_def int4_def Let_def)
  from added state refused rejected absent show ?thesis
    by auto
qed

text \<open>
  The claim as worded, for every quantity of at least 1, fails at the largest value of
  a 32-bit integer: the schema bounds the quantity from below only, and on a stock of 3
  the sum does not fit the column.
\<close>

theorem restock_beyond_integer_counterexample:
  "get_inventory db_single 1 =
     Some \<lparr> inv_id = 1, inv_product_id = 1, quantity_in_stock = 3, reorder_level = 1,
            last_restocked_at = None \<rparr> \<and>
   1 \<le> ir_quantity_to_add \<lparr> ir_quantity_to_add = 2147483647 \<rparr> \<and>
   inventory_restock_inventory db_single 5 1 \<lparr> ir_quantity_to_add = 2147483647 \<rparr> =
     (Inl DataError, db_single)"
  by (simp add: db_single_def inventory_restock_inventory_def valid_inventory_restock_def
      crud_restock_inventory_def get_inventory_def int4_def Let_def)

text \<open>
  Claim C9. Updating an order rejects, with a validation error, every \<open>order_status\<close>
  that is not one of pending, confirmed, shipped, delivered, cancelled; deleting an order
  that is shipped or delivered is rejected and leaves the order as it is.

  The empty string is not one of the five statuses, yet the update handler accepts it
  from the owner of the order and stores it as the order's status: the test of the
  status is skipped for a value that is false in a condition. Non-empty unknown statuses
  and the deletion of shipped and delivered orders are rejected
  (\<open>unknown_status_rejected\<close>, \<open>shipped_order_not_deleted\<close>).
\<close>

theorem empty_status_accepted:
  "[] \<notin> set valid_statuses \<and>
   orders_update_order db_ordered 1 1 \<lparr> ou_address = Unset, ou_order_status = Given [] \<rparr> =
     (Inr (Some \<lparr> order_id = 1, order_user_id = 1, order_cart_id = 1,
                  order_address = ''123 Test St'', order_status = [], total_amount = 2000 \<rparr>),
      db_single \<lparr> orders := [\<lparr> order_id = 1, order_user_id = 1, order_cart_id = 1,
                  order_address = ''123 Test St'', order_status = [], total_amount = 2000 \<rparr>] \<rparr>)"
  by (simp add: db_ordered_rows db_single_def orders_update_order_def crud_update_order_def
      lookup_defs valid_statuses_def Let_def)




end
